theory Spec2Isabelle
  imports Complex_Main "HOL-Library.Word"
begin

section \<open>Tracking loops and navigation measurements of libswiftnav (track.c)\<close>

text \<open>
  The number model. A C \<open>double\<close> is modelled by the real number it denotes, and the
  operators \<open>+\<close>, \<open>-\<close>, \<open>*\<close>, \<open>/\<close>, \<open>sqrt\<close>, \<open>sin\<close>, \<open>cos\<close>, \<open>ceil\<close> by the exact
  operations on \<open>real\<close>: rounding, overflow and underflow are outside the model.
  A quotient by zero has no real value (the hardware answers with an infinity or a
  NaN); every numeric statement below about a quotient carries the hypothesis that
  makes its divisor non-zero, or equates two quotients with the same divisor.
  The one function that the specification pins down at a zero divisor,
  \<open>costas_discriminator\<close>, is modelled on doubles with their special values.
\<close>

subsection \<open>Loop filter design\<close>

text \<open>
  \<open>calc_loop_coeff\<close> (track.c, lines 31-38): the two results written through
  \<open>tau1\<close> and \<open>tau2\<close> are returned as a pair.
\<close>

definition calc_loop_coeff :: "real \<Rightarrow> real \<Rightarrow> real \<Rightarrow> real \<times> real" where
  "calc_loop_coeff BW zeta k =
     (let omega_n = BW * 8 * zeta / (4 * zeta * zeta + 1);
          tau1 = k / (omega_n * omega_n);
          tau2 = 2 * zeta / omega_n
      in (tau1, tau2))"

text \<open>
  \<open>calc_loop_gains\<close> (track.c, lines 107-118): the pair is \<open>(*pgain, *igain)\<close>.
\<close>

definition calc_loop_gains :: "real \<Rightarrow> real \<Rightarrow> real \<Rightarrow> real \<Rightarrow> real \<times> real" where
  "calc_loop_gains bw zeta k sample_freq =
     (let omega_n = bw * 8 * zeta / (4 * zeta * zeta + 1);
          T = 1 / sample_freq;
          denominator = k * (4 + 4 * zeta * omega_n * T + omega_n * omega_n * T * T);
          pgain = 8 * zeta * omega_n * T / denominator;
          igain = 4 * omega_n * omega_n * T * T / denominator
      in (pgain, igain))"

subsection \<open>Doubles with their special values\<close>

text \<open>
  The values of an IEEE 754 double, without rounding: the finite numbers (\<open>Finite 0\<close> is
  \<open>+0\<close>, \<open>NegZero\<close> is \<open>-0\<close>), the two infinities and NaN. Division, multiplication and
  \<open>atan\<close> follow IEEE 754 and Annex F of C99 on the special values and are exact on the
  finite ones.
\<close>

datatype double = Finite real | NegZero | PosInf | NegInf | NaN

fun d_val :: "double \<Rightarrow> real option" where
  "d_val (Finite r) = Some r"
| "d_val NegZero = Some 0"
| "d_val PosInf = None"
| "d_val NegInf = None"
| "d_val NaN = None"

fun signbit :: "double \<Rightarrow> bool" where
  "signbit (Finite r) = (r < 0)"
| "signbit NegZero = True"
| "signbit PosInf = False"
| "signbit NegInf = True"
| "signbit NaN = False"

definition signed_zero :: "bool \<Rightarrow> double" where
  "signed_zero s = (if s then NegZero else Finite 0)"

definition signed_inf :: "bool \<Rightarrow> double" where
  "signed_inf s = (if s then NegInf else PosInf)"

fun d_neg :: "double \<Rightarrow> double" where
  "d_neg (Finite r) = (if r = 0 then NegZero else Finite (- r))"
| "d_neg NegZero = Finite 0"
| "d_neg PosInf = NegInf"
| "d_neg NegInf = PosInf"
| "d_neg NaN = NaN"

definition d_mul :: "double \<Rightarrow> double \<Rightarrow> double" where
  "d_mul x y =
     (if x = NaN \<or> y = NaN then NaN
      else case (d_val x, d_val y) of
             (None, None) \<Rightarrow> signed_inf (signbit x \<noteq> signbit y)
           | (None, Some b) \<Rightarrow> if b = 0 then NaN else signed_inf (signbit x \<noteq> signbit y)
           | (Some a, None) \<Rightarrow> if a = 0 then NaN else signed_inf (signbit x \<noteq> signbit y)
           | (Some a, Some b) \<Rightarrow>
               if a * b = 0 then signed_zero (signbit x \<noteq> signbit y) else Finite (a * b))"

definition d_div :: "double \<Rightarrow> double \<Rightarrow> double" where
  "d_div x y =
     (if x = NaN \<or> y = NaN then NaN
      else case (d_val x, d_val y) of
             (None, None) \<Rightarrow> NaN
           | (None, Some b) \<Rightarrow> signed_inf (signbit x \<noteq> signbit y)
           | (Some a, None) \<Rightarrow> signed_zero (signbit x \<noteq> signbit y)
           | (Some a, Some b) \<Rightarrow>
               if b = 0 then (if a = 0 then NaN else signed_inf (signbit x \<noteq> signbit y))
               else if a = 0 then signed_zero (signbit x \<noteq> signbit y)
               else Finite (a / b))"

fun d_atan :: "double \<Rightarrow> double" where
  "d_atan (Finite r) = Finite (arctan r)"
| "d_atan NegZero = NegZero"
| "d_atan PosInf = Finite (pi / 2)"
| "d_atan NegInf = Finite (- (pi / 2))"
| "d_atan NaN = NaN"

definition M_PI :: double where
  "M_PI = Finite pi"

subsection \<open>Discriminators\<close>

text \<open>\<open>costas_discriminator\<close> (track.c, lines 134-136).\<close>

definition costas_discriminator :: "double \<Rightarrow> double \<Rightarrow> double" where
  "costas_discriminator I Q = d_div (d_atan (d_div I Q)) (d_mul (Finite 2) M_PI)"

text \<open>
  \<open>correlation_t\<close> is declared in track.h, outside the sources at hand: a pair of
  integer fields \<open>I\<close> and \<open>Q\<close> (here \<open>corr_I\<close> and \<open>corr_Q\<close>), which the cast \<open>(double)\<close>
  of the source widens before they are multiplied. The array parameter \<open>cs[3]\<close> is
  the triple \<open>(cs[0], cs[1], cs[2])\<close>.
\<close>

record correlation_t =
  corr_I :: int
  corr_Q :: int

text \<open>\<open>dll_discriminator\<close> (track.c, lines 138-143).\<close>

definition dll_discriminator :: "correlation_t \<times> correlation_t \<times> correlation_t \<Rightarrow> real" where
  "dll_discriminator cs =
     (case cs of (cs0, cs1, cs2) \<Rightarrow>
        let early_mag = sqrt (real_of_int (corr_I cs0) * real_of_int (corr_I cs0)
                              + real_of_int (corr_Q cs0) * real_of_int (corr_Q cs0));
            late_mag = sqrt (real_of_int (corr_I cs2) * real_of_int (corr_I cs2)
                             + real_of_int (corr_Q cs2) * real_of_int (corr_Q cs2))
        in (early_mag - late_mag) / (early_mag + late_mag))"

subsection \<open>Navigation measurements\<close>

text \<open>
  \<open>channel_measurement_t\<close> and \<open>navigation_measurement_t\<close> are declared in track.h,
  outside the sources at hand; the records hold the fields that track.c reads and
  writes. \<open>time_of_week_ms\<close> is an integer count of milliseconds, the other fields are
  doubles, \<open>sat_pos\<close> and \<open>sat_vel\<close> are arrays of three doubles.
\<close>

type_synonym vec3 = "real \<times> real \<times> real"

record channel_measurement_t =
  code_phase_chips :: real
  code_phase_rate :: real
  carrier_freq :: real
  time_of_week_ms :: int
  receiver_time :: real

record navigation_measurement_t =
  pseudorange :: real
  pseudorange_rate :: real
  TOT :: real
  sat_pos :: vec3
  sat_vel :: vec3

text \<open>
  The macros \<open>NAV_C\<close> (speed of light), \<open>GPS_L1_HZ\<close> (L1 carrier frequency) and
  \<open>NOMINAL_RANGE\<close> come from headers outside the sources at hand: they are parameters
  of the model.
\<close>

record nav_constants =
  NAV_C :: real
  GPS_L1_HZ :: real
  NOMINAL_RANGE :: real

text \<open>
  Modelled from the spec: \<open>calc_sat_pos\<close> is declared in ephemeris.h and defined outside
  the sources at hand. Given an ephemeris and a time of transmission it returns the
  satellite position, its velocity and the two clock terms; the model takes it as a
  function of type \<open>'e \<Rightarrow> real \<Rightarrow> sat_solution\<close>, for any type \<open>'e\<close> of ephemerides.
\<close>

record sat_solution =
  pos :: vec3
  vel :: vec3
  clock_err :: real
  clock_rate_err :: real

text \<open>
  The first loop (lines 167-175), one iteration: the state is the array \<open>TOTs\<close>, the
  running sum \<open>mean_TOT\<close> and the array \<open>nav_meas\<close>.
\<close>

definition first_pass ::
  "nav_constants \<Rightarrow> channel_measurement_t list \<Rightarrow> real \<Rightarrow> nat \<Rightarrow>
   real list \<times> real \<times> navigation_measurement_t list \<Rightarrow>
   real list \<times> real \<times> navigation_measurement_t list" where
  "first_pass K meas nav_time i s =
     (case s of (TOTs, mean_TOT, nav_meas) \<Rightarrow>
        let t = (1 / 1000) * real_of_int (time_of_week_ms (meas ! i));
            t = t + code_phase_chips (meas ! i) / 1023000;
            t = t + (nav_time - receiver_time (meas ! i)) * code_phase_rate (meas ! i) / 1023000;
            TOTs = TOTs[i := t];
            nav_meas = nav_meas[i := (nav_meas ! i)\<lparr>TOT := TOTs ! i\<rparr>];
            mean_TOT = mean_TOT + TOTs ! i;
            nav_meas = nav_meas[i := (nav_meas ! i)
              \<lparr>pseudorange_rate := NAV_C K * - carrier_freq (meas ! i) / GPS_L1_HZ K\<rparr>]
        in (TOTs, mean_TOT, nav_meas))"

text \<open>
  The second loop (lines 181-188), one iteration, in its two steps: line 182 assigns
  the pseudorange from the times of transmission; lines 184-187 call \<open>calc_sat_pos\<close> and
  apply the satellite clock terms.
\<close>

definition assign_range ::
  "nav_constants \<Rightarrow> real \<Rightarrow> real list \<Rightarrow> nat \<Rightarrow>
   navigation_measurement_t list \<Rightarrow> navigation_measurement_t list" where
  "assign_range K mean_TOT TOTs i nav_meas =
     nav_meas[i := (nav_meas ! i)
       \<lparr>pseudorange := (mean_TOT - TOTs ! i) * NAV_C K + NOMINAL_RANGE K\<rparr>]"

definition apply_sat_clock ::
  "nav_constants \<Rightarrow> ('e \<Rightarrow> real \<Rightarrow> sat_solution) \<Rightarrow> 'e list \<Rightarrow> real list \<Rightarrow> nat \<Rightarrow>
   navigation_measurement_t list \<Rightarrow> navigation_measurement_t list" where
  "apply_sat_clock K calc_sat_pos ephemerides TOTs i nav_meas =
     (let s = calc_sat_pos (ephemerides ! i) (TOTs ! i);
          nav_meas = nav_meas[i := (nav_meas ! i)\<lparr>sat_pos := pos s, sat_vel := vel s\<rparr>];
          nav_meas = nav_meas[i := (nav_meas ! i)
            \<lparr>pseudorange := pseudorange (nav_meas ! i) + clock_err s * NAV_C K\<rparr>];
          nav_meas = nav_meas[i := (nav_meas ! i)
            \<lparr>pseudorange_rate := pseudorange_rate (nav_meas ! i) - clock_rate_err s * NAV_C K\<rparr>]
      in nav_meas)"

definition second_pass ::
  "nav_constants \<Rightarrow> ('e \<Rightarrow> real \<Rightarrow> sat_solution) \<Rightarrow> 'e list \<Rightarrow> real \<Rightarrow> real list \<Rightarrow> nat \<Rightarrow>
   navigation_measurement_t list \<Rightarrow> navigation_measurement_t list" where
  "second_pass K calc_sat_pos ephemerides mean_TOT TOTs i nav_meas =
     apply_sat_clock K calc_sat_pos ephemerides TOTs i (assign_range K mean_TOT TOTs i nav_meas)"

text \<open>
  The state after the first loop and the division of line 177: the array \<open>TOTs\<close>, the
  mean and \<open>nav_meas\<close>. The variable-length array \<open>TOTs\<close> starts uninitialised; every
  entry is written before it is read, and the model starts it at 0.
\<close>

definition first_loop ::
  "nav_constants \<Rightarrow> nat \<Rightarrow> channel_measurement_t list \<Rightarrow> navigation_measurement_t list \<Rightarrow>
   real \<Rightarrow> real list \<times> real \<times> navigation_measurement_t list" where
  "first_loop K n meas nav_meas nav_time =
     (case fold (first_pass K meas nav_time) [0..<n] (replicate n 0, 0, nav_meas) of
        (TOTs, mean_TOT, nav_meas) \<Rightarrow> (TOTs, mean_TOT / real n, nav_meas))"

text \<open>
  \<open>calc_navigation_measurement_\<close> (track.c, lines 162-189), here
  \<open>calc_navigation_measurement_ptrs\<close>. The three arrays of pointers are lists of the
  objects pointed to, which are pairwise distinct, as they are when the function is
  called by \<open>calc_navigation_measurement\<close>. The C arrays carry no length: an array
  shorter than \<open>n_channels\<close> is read out of bounds, and the model returns \<open>None\<close>.
  The result is the array \<open>nav_meas\<close> after the call.
\<close>

definition calc_navigation_measurement_ptrs ::
  "nav_constants \<Rightarrow> ('e \<Rightarrow> real \<Rightarrow> sat_solution) \<Rightarrow> 8 word \<Rightarrow> channel_measurement_t list \<Rightarrow>
   navigation_measurement_t list \<Rightarrow> real \<Rightarrow> 'e list \<Rightarrow> navigation_measurement_t list option" where
  "calc_navigation_measurement_ptrs K calc_sat_pos n_channels meas nav_meas nav_time ephemerides =
     (let n = unat n_channels in
      if n \<le> length meas \<and> n \<le> length nav_meas \<and> n \<le> length ephemerides then
        (case first_loop K n meas nav_meas nav_time of
           (TOTs, mean_TOT, nav_meas) \<Rightarrow>
             Some (fold (second_pass K calc_sat_pos ephemerides mean_TOT TOTs) [0..<n] nav_meas))
      else None)"

text \<open>
  \<open>calc_navigation_measurement\<close> (track.c, lines 147-160) builds the arrays of pointers
  to the elements of its three arrays and calls the function above.
\<close>

definition calc_navigation_measurement ::
  "nav_constants \<Rightarrow> ('e \<Rightarrow> real \<Rightarrow> sat_solution) \<Rightarrow> 8 word \<Rightarrow> channel_measurement_t list \<Rightarrow>
   navigation_measurement_t list \<Rightarrow> real \<Rightarrow> 'e list \<Rightarrow> navigation_measurement_t list option" where
  "calc_navigation_measurement K calc_sat_pos n_channels meas nav_meas nav_time ephemerides =
     calc_navigation_measurement_ptrs K calc_sat_pos n_channels meas nav_meas nav_time ephemerides"

text \<open>
  The pseudoranges as line 182 assigns them, before lines 184-187 apply the satellite
  clock terms: entry \<open>i\<close> is the value that iteration \<open>i\<close> of the second loop stores.
\<close>

definition uncorrected_pseudoranges ::
  "nav_constants \<Rightarrow> 8 word \<Rightarrow> channel_measurement_t list \<Rightarrow> navigation_measurement_t list \<Rightarrow>
   real \<Rightarrow> real list" where
  "uncorrected_pseudoranges K n_channels meas nav_meas nav_time =
     (case first_loop K (unat n_channels) meas nav_meas nav_time of
        (TOTs, mean_TOT, nav_meas) \<Rightarrow>
          map (\<lambda>i. pseudorange (assign_range K mean_TOT TOTs i nav_meas ! i))
            [0..<unat n_channels])"

text \<open>
  The pseudorange rates as line 174 assigns them in the first loop, before line 187
  applies the satellite clock drift.
\<close>

definition uncorrected_pseudorange_rates ::
  "nav_constants \<Rightarrow> 8 word \<Rightarrow> channel_measurement_t list \<Rightarrow> navigation_measurement_t list \<Rightarrow>
   real \<Rightarrow> real list" where
  "uncorrected_pseudorange_rates K n_channels meas nav_meas nav_time =
     (case first_loop K (unat n_channels) meas nav_meas nav_time of
        (TOTs, mean_TOT, nav_meas) \<Rightarrow> map (\<lambda>i. pseudorange_rate (nav_meas ! i)) [0..<unat n_channels])"

subsection \<open>Correlation\<close>

text \<open>
  What C leaves undefined is an error of the model: a conversion \<open>(int)x\<close> whose value
  does not fit an \<open>int\<close> (32 bits), and a read outside the array \<open>code\<close> or \<open>samples\<close>,
  which are lists of signed bytes. The error of a code read names the tap (line 226,
  227 or 228) and the index.
\<close>

datatype tap = Early | Prompt | Late

datatype error =
    ConversionOutOfRange
  | CodeIndexOutOfBounds tap int
  | SampleIndexOutOfBounds nat

text \<open>\<open>(int)x\<close>: the value of \<open>x\<close> truncated toward zero, when an \<open>int\<close> holds it.\<close>

definition trunc :: "real \<Rightarrow> int" where
  "trunc x = (if 0 \<le> x then \<lfloor>x\<rfloor> else \<lceil>x\<rceil>)"

definition double_to_int :: "real \<Rightarrow> error + int" where
  "double_to_int x =
     (if - (2 ^ 31) \<le> trunc x \<and> trunc x \<le> 2 ^ 31 - 1 then Inr (trunc x)
      else Inl ConversionOutOfRange)"

text \<open>\<open>code[(int)ceil(x)]\<close> and \<open>samples[i]\<close>, converted to double.\<close>

definition code_at :: "tap \<Rightarrow> 8 word list \<Rightarrow> real \<Rightarrow> error + real" where
  "code_at t code x =
     (case double_to_int (real_of_int \<lceil>x\<rceil>) of
        Inl e \<Rightarrow> Inl e
      | Inr j \<Rightarrow>
          if 0 \<le> j \<and> j < int (length code) then Inr (real_of_int (sint (code ! nat j)))
          else Inl (CodeIndexOutOfBounds t j))"

definition sample_at :: "8 word list \<Rightarrow> nat \<Rightarrow> error + real" where
  "sample_at samples i =
     (if i < length samples then Inr (real_of_int (sint (samples ! i)))
      else Inl (SampleIndexOutOfBounds i))"

text \<open>\<open>fmod(x, y)\<close> for \<open>y \<noteq> 0\<close>: the remainder of the division truncated toward zero.\<close>

definition c_fmod :: "real \<Rightarrow> real \<Rightarrow> real" where
  "c_fmod x y = x - real_of_int (trunc (x / y)) * y"

text \<open>
  The six sums written through \<open>I_E\<close>, ..., \<open>Q_L\<close>; the local state of the loop; and what
  \<open>track_correlate\<close> writes back: the sums, \<open>*init_code_phase\<close>, \<open>*init_carr_phase\<close> and
  \<open>*num_samples\<close>. The pointers are taken to point to distinct objects.
\<close>

record correlations =
  I_E :: real
  Q_E :: real
  I_P :: real
  Q_P :: real
  I_L :: real
  Q_L :: real

record correlator = correlations +
  code_phase :: real
  carr_phase :: real
  carr_sin :: real
  carr_cos :: real

record track_output = correlations +
  init_code_phase :: real
  init_carr_phase :: real
  num_samples :: "32 word"

text \<open>
  The body of the loop (lines 223-247) for sample \<open>i\<close>. The locals \<open>carr_sin_\<close> and
  \<open>carr_cos_\<close> of the source are \<open>carr_sin'\<close> and \<open>carr_cos'\<close>.
\<close>

definition correlate_sample ::
  "8 word list \<Rightarrow> 8 word list \<Rightarrow> real \<Rightarrow> real \<Rightarrow> real \<Rightarrow> real \<Rightarrow> nat \<Rightarrow> correlator \<Rightarrow>
   error + correlator" where
  "correlate_sample samples code code_step carr_step sin_delta cos_delta i st =
     (case code_at Early code (code_phase st - 1 / 2) of Inl e \<Rightarrow> Inl e | Inr code_E \<Rightarrow>
      case code_at Prompt code (code_phase st) of Inl e \<Rightarrow> Inl e | Inr code_P \<Rightarrow>
      case code_at Late code (code_phase st + 1 / 2) of Inl e \<Rightarrow> Inl e | Inr code_L \<Rightarrow>
      case sample_at samples i of Inl e \<Rightarrow> Inl e | Inr x \<Rightarrow>
        let baseband_Q = carr_cos st * x;
            baseband_I = carr_sin st * x;
            carr_sin' = carr_sin st * cos_delta + carr_cos st * sin_delta;
            carr_cos' = carr_cos st * cos_delta - carr_sin st * sin_delta;
            i_mag = (3 - carr_sin' * carr_sin' - carr_cos' * carr_cos') / 2
        in Inr (st\<lparr>carr_sin := carr_sin' * i_mag,
                    carr_cos := carr_cos' * i_mag,
                    I_E := I_E st + code_E * baseband_I,
                    Q_E := Q_E st + code_E * baseband_Q,
                    I_P := I_P st + code_P * baseband_I,
                    Q_P := Q_P st + code_P * baseband_Q,
                    I_L := I_L st + code_L * baseband_I,
                    Q_L := Q_L st + code_L * baseband_Q,
                    code_phase := code_phase st + code_step,
                    carr_phase := carr_phase st + carr_step\<rparr>))"

text \<open>
  The loop \<open>for (u32 i=0; i<*num_samples; i++)\<close>, from \<open>i\<close> on, with \<open>n\<close> the value of
  \<open>*num_samples\<close>: the counter stays below \<open>n < 2\<^sup>3\<^sup>2\<close> and never wraps.
\<close>

function track_loop ::
  "8 word list \<Rightarrow> 8 word list \<Rightarrow> real \<Rightarrow> real \<Rightarrow> real \<Rightarrow> real \<Rightarrow> nat \<Rightarrow> nat \<Rightarrow> correlator \<Rightarrow>
   error + correlator" where
  "track_loop samples code code_step carr_step sin_delta cos_delta n i st =
     (if i < n then
        (case correlate_sample samples code code_step carr_step sin_delta cos_delta i st of
           Inl e \<Rightarrow> Inl e
         | Inr st' \<Rightarrow>
             track_loop samples code code_step carr_step sin_delta cos_delta n (Suc i) st')
      else Inr st)"
  by pat_completeness auto
termination
  by (relation "measure (\<lambda>(samples, code, code_step, carr_step, sin_delta, cos_delta, n, i, st). n - i)")
    auto

declare track_loop.simps [simp del]

text \<open>
  \<open>track_correlate\<close> (track.c, lines 203-251). A zero \<open>code_step\<close> makes the quotient of
  line 220 an infinity or a NaN, whose conversion to \<open>int\<close> is undefined. The \<open>int\<close> is
  then converted to the \<open>u32\<close> \<open>*num_samples\<close> modulo \<open>2\<^sup>3\<^sup>2\<close>.
\<close>

definition track_correlate ::
  "8 word list \<Rightarrow> 8 word list \<Rightarrow> real \<Rightarrow> real \<Rightarrow> real \<Rightarrow> real \<Rightarrow> error + track_output" where
  "track_correlate samples code init_code_phase0 code_step init_carr_phase0 carr_step =
     (let st = \<lparr>I_E = 0, Q_E = 0, I_P = 0, Q_P = 0, I_L = 0, Q_L = 0,
                code_phase = init_code_phase0, carr_phase = init_carr_phase0,
                carr_sin = sin init_carr_phase0, carr_cos = cos init_carr_phase0\<rparr>;
          sin_delta = sin carr_step;
          cos_delta = cos carr_step
      in case (if code_step = 0 then Inl ConversionOutOfRange
               else double_to_int (real_of_int \<lceil>(1023 - code_phase st) / code_step\<rceil>)) of
           Inl e \<Rightarrow> Inl e
         | Inr c \<Rightarrow>
             let n = (word_of_int c :: 32 word) in
             case track_loop samples code code_step carr_step sin_delta cos_delta (unat n) 0 st of
               Inl e \<Rightarrow> Inl e
             | Inr st' \<Rightarrow>
                 Inr \<lparr>I_E = I_E st', Q_E = Q_E st', I_P = I_P st', Q_P = Q_P st',
                      I_L = I_L st', Q_L = Q_L st',
                      init_code_phase = code_phase st' - 1023,
                      init_carr_phase = c_fmod (carr_phase st') (2 * pi),
                      num_samples = n\<rparr>)"

subsection \<open>Closed forms used in the proofs\<close>

text \<open>
  Not part of the program: the time of transmission and the pseudorange rate of one
  channel as formulas of its measurement, and the entry of \<open>nav_meas\<close> that one full
  iteration of the second loop leaves behind. The lemmas below show that the loops
  compute them; the theorems C1, C8 and C10 are stated without them.
\<close>

definition stated_TOT :: "real \<Rightarrow> channel_measurement_t \<Rightarrow> real" where
  "stated_TOT nav_time m =
     real_of_int (time_of_week_ms m) / 1000 + code_phase_chips m / 1023000
     + (nav_time - receiver_time m) * code_phase_rate m / 1023000"

definition stated_rate :: "nav_constants \<Rightarrow> channel_measurement_t \<Rightarrow> real" where
  "stated_rate K m = NAV_C K * (- carrier_freq m / GPS_L1_HZ K)"

definition channel_result ::
  "nav_constants \<Rightarrow> sat_solution \<Rightarrow> real \<Rightarrow> real \<Rightarrow> navigation_measurement_t \<Rightarrow>
   navigation_measurement_t" where
  "channel_result K s mean_TOT t nm =
     nm\<lparr>sat_pos := pos s, sat_vel := vel s,
        pseudorange := (mean_TOT - t) * NAV_C K + NOMINAL_RANGE K + clock_err s * NAV_C K,
        pseudorange_rate := pseudorange_rate nm - clock_rate_err s * NAV_C K\<rparr>"

section \<open>Properties\<close>

subsection \<open>Loop filter design\<close>

text \<open>
  C2. For every bandwidth \<open>B\<close>, damping ratio \<open>zeta > 0\<close>, loop gain \<open>k \<noteq> 0\<close> and sampling
  frequency \<open>f_s > 0\<close>, \<open>calc_loop_gains\<close> returns \<open>k_p = 8 zeta omega_n T / D\<close> and
  \<open>k_i = 4 omega_n\<^sup>2 T\<^sup>2 / D\<close>, where \<open>omega_n = 8 zeta B / (4 zeta\<^sup>2 + 1)\<close>, \<open>T = 1 / f_s\<close>
  and \<open>D = k (4 + 4 zeta omega_n T + omega_n\<^sup>2 T\<^sup>2)\<close>.
\<close>

theorem calc_loop_gains_formula:
  fixes B zeta k f_s :: real
  assumes "0 < zeta" and "k \<noteq> 0" and "0 < f_s"
  defines "omega_n \<equiv> 8 * zeta * B / (4 * zeta\<^sup>2 + 1)"
  defines "T \<equiv> 1 / f_s"
  defines "D \<equiv> k * (4 + 4 * zeta * omega_n * T + omega_n\<^sup>2 * T\<^sup>2)"
  shows "calc_loop_gains B zeta k f_s =
           (8 * zeta * omega_n * T / D, 4 * omega_n\<^sup>2 * T\<^sup>2 / D)"
proof -
  have w: "B * 8 * zeta / (4 * zeta * zeta + 1) = omega_n"
    by (simp add: omega_n_def power2_eq_square mult.commute mult.left_commute)
  have d: "k * (4 + 4 * zeta * omega_n * T + omega_n * omega_n * T * T) = D"
    by (simp add: D_def power2_eq_square mult.assoc)
  have i: "4 * omega_n * omega_n * T * T = 4 * omega_n\<^sup>2 * T\<^sup>2"
    by (simp add: power2_eq_square mult.assoc)
  show ?thesis
    unfolding calc_loop_gains_def Let_def w T_def [symmetric] d i by (rule refl)
qed

theorem calc_loop_gains_formula_witness:
  "(0::real) < 1 \<and> (1::real) \<noteq> 0 \<and> calc_loop_gains 1 1 1 1 = (80 / 81, 64 / 81)"
  using calc_loop_gains_formula [of 1 1 1 1] by (simp add: power2_eq_square)

text \<open>
  With a negative loop gain the proportional and the integral gain are negative:
  at \<open>B = 1\<close>, \<open>zeta = 1\<close>, \<open>k = -1\<close>, \<open>f_s = 1\<close> they are \<open>-80/81\<close> and \<open>-64/81\<close>.
\<close>

theorem calc_loop_gains_negative_gain:
  "calc_loop_gains 1 1 (- 1) 1 = (- (80 / 81), - (64 / 81))"
  by (simp add: calc_loop_gains_def Let_def)

lemma calc_loop_gains_sign:
  fixes B zeta k f_s :: real
  assumes "0 < zeta" and "k \<noteq> 0" and "0 < B" and "0 < f_s"
  shows "0 < k * fst (calc_loop_gains B zeta k f_s)"
    and "0 < k * snd (calc_loop_gains B zeta k f_s)"
proof -
  define w where "w = B * 8 * zeta / (4 * zeta * zeta + 1)"
  define T where "T = 1 / f_s"
  define c where "c = 4 + 4 * zeta * w * T + w * w * T * T"
  have w: "0 < w" unfolding w_def using assms(1,3) by (simp add: add_pos_pos)
  have T: "0 < T" unfolding T_def using assms(4) by simp
  have c: "0 < c" unfolding c_def using w T assms(1) by (simp add: add_pos_pos)
  have p: "fst (calc_loop_gains B zeta k f_s) = 8 * zeta * w * T / (k * c)"
    and i: "snd (calc_loop_gains B zeta k f_s) = 4 * w * w * T * T / (k * c)"
    by (simp_all add: calc_loop_gains_def Let_def w_def T_def c_def)
  have "k * (8 * zeta * w * T / (k * c)) = 8 * zeta * w * T / c"
    using assms(2) by simp
  moreover have "0 < 8 * zeta * w * T / c"
    using w T c assms(1) by simp
  ultimately show "0 < k * fst (calc_loop_gains B zeta k f_s)"
    by (simp only: p)
  have "k * (4 * w * w * T * T / (k * c)) = 4 * w * w * T * T / c"
    using assms(2) by simp
  moreover have "0 < 4 * w * w * T * T / c"
    using w T c by simp
  ultimately show "0 < k * snd (calc_loop_gains B zeta k f_s)"
    by (simp only: i)
qed

text \<open>
  C7, amended. For all \<open>zeta > 0\<close>, \<open>k \<noteq> 0\<close>, \<open>B > 0\<close>, \<open>f_s > 0\<close>: \<open>calc_loop_coeff\<close> returns
  \<open>tau1 = k / omega_n\<^sup>2\<close> and \<open>tau2 = 2 zeta / omega_n\<close> with the natural frequency
  \<open>omega_n = 8 zeta B / (4 zeta\<^sup>2 + 1)\<close> of \<open>calc_loop_gains\<close>, which is positive and is
  recovered from the time constants (\<open>k / tau1 = omega_n\<^sup>2\<close>, \<open>2 zeta / tau2 = omega_n\<close>); the
  gains of \<open>calc_loop_gains\<close> are the ones obtained from the time constants; and both
  gains have the sign of \<open>k\<close> (\<open>k k_p > 0\<close> and \<open>k k_i > 0\<close>): strictly positive
  when \<open>k > 0\<close>, strictly negative when \<open>k < 0\<close>.
\<close>

theorem loop_coefficients_consistent:
  fixes B zeta k f_s :: real
  defines "omega_n \<equiv> 8 * zeta * B / (4 * zeta\<^sup>2 + 1)"
  defines "T \<equiv> 1 / f_s"
  defines "tau1 \<equiv> fst (calc_loop_coeff B zeta k)"
  defines "tau2 \<equiv> snd (calc_loop_coeff B zeta k)"
  defines "k_p \<equiv> fst (calc_loop_gains B zeta k f_s)"
  defines "k_i \<equiv> snd (calc_loop_gains B zeta k f_s)"
  assumes "0 < zeta" and "k \<noteq> 0" and "0 < B" and "0 < f_s"
  shows "tau1 = k / omega_n\<^sup>2 \<and> tau2 = 2 * zeta / omega_n
         \<and> 0 < omega_n \<and> k / tau1 = omega_n\<^sup>2 \<and> 2 * zeta / tau2 = omega_n
         \<and> k_p = 8 * zeta * (2 * zeta / tau2) * T
                  / (k * (4 + 4 * zeta * (2 * zeta / tau2) * T + (k / tau1) * T\<^sup>2))
         \<and> k_i = 4 * (k / tau1) * T\<^sup>2
                  / (k * (4 + 4 * zeta * (2 * zeta / tau2) * T + (k / tau1) * T\<^sup>2))
         \<and> 0 < k * k_p \<and> 0 < k * k_i
         \<and> (0 < k \<longrightarrow> 0 < k_p \<and> 0 < k_i)
         \<and> (k < 0 \<longrightarrow> k_p < 0 \<and> k_i < 0)"
proof -
  have w: "B * 8 * zeta / (4 * zeta * zeta + 1) = omega_n"
    by (simp add: omega_n_def power2_eq_square mult.commute mult.left_commute)
  have pos: "0 < omega_n"
    unfolding omega_n_def using assms(7,9) by (simp add: add_pos_pos)
  have t1: "tau1 = k / omega_n\<^sup>2" and t2: "tau2 = 2 * zeta / omega_n"
    by (simp_all add: tau1_def tau2_def calc_loop_coeff_def Let_def w power2_eq_square)
  have r1: "k / tau1 = omega_n\<^sup>2" and r2: "2 * zeta / tau2 = omega_n"
    using pos assms(7,8) by (simp_all add: t1 t2)
  have d: "k * (4 + 4 * zeta * omega_n * T + omega_n * omega_n * T * T)
             = k * (4 + 4 * zeta * omega_n * T + omega_n\<^sup>2 * T\<^sup>2)"
    by (simp add: power2_eq_square mult.assoc)
  have i: "4 * omega_n * omega_n * T * T = 4 * omega_n\<^sup>2 * T\<^sup>2"
    by (simp add: power2_eq_square mult.assoc)
  have "calc_loop_gains B zeta k f_s =
          (8 * zeta * omega_n * T / (k * (4 + 4 * zeta * omega_n * T + omega_n\<^sup>2 * T\<^sup>2)),
           4 * omega_n\<^sup>2 * T\<^sup>2 / (k * (4 + 4 * zeta * omega_n * T + omega_n\<^sup>2 * T\<^sup>2)))"
    unfolding calc_loop_gains_def Let_def w T_def [symmetric] d i by (rule refl)
  then have kp: "k_p = 8 * zeta * omega_n * T / (k * (4 + 4 * zeta * omega_n * T + omega_n\<^sup>2 * T\<^sup>2))"
    and ki: "k_i = 4 * omega_n\<^sup>2 * T\<^sup>2 / (k * (4 + 4 * zeta * omega_n * T + omega_n\<^sup>2 * T\<^sup>2))"
    by (simp_all add: k_p_def k_i_def)
  have sp: "0 < k * k_p" and si: "0 < k * k_i"
    unfolding k_p_def k_i_def using assms(7-10) by (rule calc_loop_gains_sign)+
  have kp': "k_p = 8 * zeta * (2 * zeta / tau2) * T
                  / (k * (4 + 4 * zeta * (2 * zeta / tau2) * T + (k / tau1) * T\<^sup>2))"
    and ki': "k_i = 4 * (k / tau1) * T\<^sup>2
                  / (k * (4 + 4 * zeta * (2 * zeta / tau2) * T + (k / tau1) * T\<^sup>2))"
    unfolding r1 r2 by (rule kp, rule ki)
  have a: "0 < k \<longrightarrow> 0 < k_p \<and> 0 < k_i"
    using sp si by (auto simp: zero_less_mult_iff)
  have b: "k < 0 \<longrightarrow> k_p < 0 \<and> k_i < 0"
    using sp si by (auto simp: zero_less_mult_iff)
  show ?thesis
    using t1 t2 pos r1 r2 kp' ki' sp si a b by blast
qed

theorem loop_coefficients_consistent_witness:
  "fst (calc_loop_coeff 1 1 1) = 25 / 64 \<and> snd (calc_loop_coeff 1 1 1) = 5 / 4
   \<and> 0 < fst (calc_loop_gains 1 1 1 1) \<and> 0 < snd (calc_loop_gains 1 1 1 1)"
  using loop_coefficients_consistent [of 1 1 1 1]
  by (simp add: power2_eq_square)

subsection \<open>Discriminators\<close>

lemma d_div_neg: "d_div (d_neg x) (d_neg y) = d_div x y"
  by (cases x; cases y) (auto simp: d_div_def signed_inf_def signed_zero_def)

lemma costas_finite:
  assumes "d_val I = Some a" and "d_val Q = Some b" and "b \<noteq> 0"
  shows "d_val (costas_discriminator I Q) = Some (arctan (a / b) / (2 * pi))"
  using assms
  by (cases I; cases Q)
    (auto simp: costas_discriminator_def d_div_def d_mul_def M_PI_def signed_zero_def
        arctan_eq_zero_iff)

text \<open>
  C3. The Costas discriminator returns \<open>atan(I/Q) / (2 pi)\<close>: for finite \<open>I\<close> and finite
  non-zero \<open>Q\<close>, of values \<open>a\<close> and \<open>b\<close>, that is the number \<open>arctan (a / b) / (2 pi)\<close>. It
  has the 180 degree symmetry \<open>costas_discriminator(I, Q) = costas_discriminator(-I, -Q)\<close>
  for all doubles \<open>I\<close> and \<open>Q\<close>, the zeros, the infinities and NaN included (the two
  calls return the same double). At \<open>I = 0\<close>, \<open>Q = 1\<close> it returns 0, and at \<open>I = 1\<close>,
  \<open>Q = 0\<close> the quotient is \<open>+\<infinity>\<close>, its arctangent \<open>pi / 2\<close>, and it returns 0.25.
\<close>

theorem costas_discriminator_spec:
  "(\<forall>I Q a b. d_val I = Some a \<and> d_val Q = Some b \<and> b \<noteq> 0 \<longrightarrow>
      d_val (costas_discriminator I Q) = Some (arctan (a / b) / (2 * pi)))
   \<and> (\<forall>I Q. costas_discriminator I Q = costas_discriminator (d_neg I) (d_neg Q))
   \<and> costas_discriminator (Finite 0) (Finite 1) = Finite 0
   \<and> costas_discriminator (Finite 1) (Finite 0) = Finite (1 / 4)"
proof (intro conjI allI impI)
  fix I Q a b
  assume "d_val I = Some a \<and> d_val Q = Some b \<and> b \<noteq> 0"
  then show "d_val (costas_discriminator I Q) = Some (arctan (a / b) / (2 * pi))"
    by (simp add: costas_finite)
next
  fix I Q
  show "costas_discriminator I Q = costas_discriminator (d_neg I) (d_neg Q)"
    by (simp add: costas_discriminator_def d_div_neg)
next
  show "costas_discriminator (Finite 0) (Finite 1) = Finite 0"
    by (simp add: costas_discriminator_def d_div_def d_mul_def M_PI_def signed_zero_def)
next
  show "costas_discriminator (Finite 1) (Finite 0) = Finite (1 / 4)"
    by (simp add: costas_discriminator_def d_div_def d_mul_def M_PI_def signed_inf_def)
qed

theorem costas_discriminator_spec_witness:
  "d_val (costas_discriminator (Finite 1) (Finite 1)) = Some (1 / 8)
   \<and> d_val (costas_discriminator NegZero (Finite (- 1))) = Some 0"
  using costas_discriminator_spec [THEN conjunct1, rule_format, of "Finite 1" 1 "Finite 1" 1]
    costas_discriminator_spec [THEN conjunct1, rule_format, of NegZero 0 "Finite (- 1)" "- 1"]
  by (simp add: arctan_one)

text \<open>
  C4. For every early/prompt/late triple with \<open>|E| = sqrt (I_E\<^sup>2 + Q_E\<^sup>2)\<close>,
  \<open>|L| = sqrt (I_L\<^sup>2 + Q_L\<^sup>2)\<close> and \<open>|E| + |L| \<noteq> 0\<close>, \<open>dll_discriminator\<close> returns
  \<open>(|E| - |L|) / (|E| + |L|)\<close>: 0 when \<open>|E| = |L|\<close>, a positive number when \<open>|E| > |L|\<close>.
\<close>

theorem dll_discriminator_spec:
  fixes cs0 cs1 cs2 :: correlation_t
  defines "E \<equiv> sqrt ((real_of_int (corr_I cs0))\<^sup>2 + (real_of_int (corr_Q cs0))\<^sup>2)"
  defines "L \<equiv> sqrt ((real_of_int (corr_I cs2))\<^sup>2 + (real_of_int (corr_Q cs2))\<^sup>2)"
  assumes "E + L \<noteq> 0"
  shows "dll_discriminator (cs0, cs1, cs2) = (E - L) / (E + L)
         \<and> (E = L \<longrightarrow> dll_discriminator (cs0, cs1, cs2) = 0)
         \<and> (L < E \<longrightarrow> 0 < dll_discriminator (cs0, cs1, cs2))"
proof -
  have eq: "dll_discriminator (cs0, cs1, cs2) = (E - L) / (E + L)"
    by (simp add: dll_discriminator_def Let_def E_def L_def power2_eq_square)
  have "0 \<le> L" by (simp add: L_def)
  then have "L < E \<Longrightarrow> 0 < (E - L) / (E + L)"
    by (simp add: divide_pos_pos)
  with eq show ?thesis by simp
qed

theorem dll_discriminator_spec_witness:
  "dll_discriminator (\<lparr>corr_I = 3, corr_Q = 4\<rparr>, \<lparr>corr_I = 1, corr_Q = 1\<rparr>, \<lparr>corr_I = 0, corr_Q = 0\<rparr>) = 1
   \<and> 0 < dll_discriminator
            (\<lparr>corr_I = 3, corr_Q = 4\<rparr>, \<lparr>corr_I = 1, corr_Q = 1\<rparr>, \<lparr>corr_I = 0, corr_Q = 0\<rparr>)"
  using dll_discriminator_spec
    [where ?cs0.0 = "\<lparr>corr_I = 3, corr_Q = 4\<rparr>" and ?cs1.0 = "\<lparr>corr_I = 1, corr_Q = 1\<rparr>"
       and ?cs2.0 = "\<lparr>corr_I = 0, corr_Q = 0\<rparr>"]
  by simp

subsection \<open>Navigation measurements\<close>

lemma fold_upt_Suc: "fold f [0..<Suc n] s = f n (fold f [0..<n] s)"
  by simp

lemma first_pass_fold:
  assumes "n \<le> length T0" and "n \<le> length nv0"
  shows "fold (first_pass K meas nav_time) [0..<n] (T0, m0, nv0) =
           (map (\<lambda>i. if i < n then stated_TOT nav_time (meas ! i) else T0 ! i) [0..<length T0],
            m0 + (\<Sum>i<n. stated_TOT nav_time (meas ! i)),
            map (\<lambda>i. if i < n
                      then (nv0 ! i)\<lparr>TOT := stated_TOT nav_time (meas ! i),
                                     pseudorange_rate := stated_rate K (meas ! i)\<rparr>
                      else nv0 ! i) [0..<length nv0])"
  using assms
proof (induction n)
  case 0
  show ?case by (simp add: map_nth)
next
  case (Suc n)
  then have IH: "fold (first_pass K meas nav_time) [0..<n] (T0, m0, nv0) =
           (map (\<lambda>i. if i < n then stated_TOT nav_time (meas ! i) else T0 ! i) [0..<length T0],
            m0 + (\<Sum>i<n. stated_TOT nav_time (meas ! i)),
            map (\<lambda>i. if i < n
                      then (nv0 ! i)\<lparr>TOT := stated_TOT nav_time (meas ! i),
                                     pseudorange_rate := stated_rate K (meas ! i)\<rparr>
                      else nv0 ! i) [0..<length nv0])"
    and n: "n < length T0" "n < length nv0"
    by simp_all
  let ?T = "map (\<lambda>i. if i < n then stated_TOT nav_time (meas ! i) else T0 ! i) [0..<length T0]"
  let ?nv = "map (\<lambda>i. if i < n
                      then (nv0 ! i)\<lparr>TOT := stated_TOT nav_time (meas ! i),
                                     pseudorange_rate := stated_rate K (meas ! i)\<rparr>
                      else nv0 ! i) [0..<length nv0]"
  have T: "?T[n := stated_TOT nav_time (meas ! n)] =
      map (\<lambda>i. if i < Suc n then stated_TOT nav_time (meas ! i) else T0 ! i) [0..<length T0]"
    by (rule nth_equalityI) (auto simp: nth_list_update less_Suc_eq)
  have nv: "?nv[n := (nv0 ! n)\<lparr>TOT := stated_TOT nav_time (meas ! n),
                                 pseudorange_rate := stated_rate K (meas ! n)\<rparr>] =
      map (\<lambda>i. if i < Suc n
                      then (nv0 ! i)\<lparr>TOT := stated_TOT nav_time (meas ! i),
                                     pseudorange_rate := stated_rate K (meas ! i)\<rparr>
                      else nv0 ! i) [0..<length nv0]"
    by (rule nth_equalityI) (auto simp: nth_list_update less_Suc_eq)
  have step: "first_pass K meas nav_time n (?T, m, ?nv) =
      (?T[n := stated_TOT nav_time (meas ! n)], m + stated_TOT nav_time (meas ! n),
       ?nv[n := (nv0 ! n)\<lparr>TOT := stated_TOT nav_time (meas ! n),
                                 pseudorange_rate := stated_rate K (meas ! n)\<rparr>])" for m
    using n by (simp add: first_pass_def Let_def stated_TOT_def stated_rate_def)
  show ?case
    unfolding fold_upt_Suc IH step T nv by simp
qed

lemma first_loop_eq:
  assumes "n \<le> length nv0"
  shows "first_loop K n meas nv0 nav_time =
           (map (\<lambda>i. stated_TOT nav_time (meas ! i)) [0..<n],
            (\<Sum>i<n. stated_TOT nav_time (meas ! i)) / real n,
            map (\<lambda>i. if i < n
                      then (nv0 ! i)\<lparr>TOT := stated_TOT nav_time (meas ! i),
                                     pseudorange_rate := stated_rate K (meas ! i)\<rparr>
                      else nv0 ! i) [0..<length nv0])"
proof -
  have "map (\<lambda>i. if i < n then stated_TOT nav_time (meas ! i) else replicate n 0 ! i) [0..<n]
        = map (\<lambda>i. stated_TOT nav_time (meas ! i)) [0..<n]"
    by (rule map_cong) simp_all
  with assms show ?thesis
    by (simp add: first_loop_def first_pass_fold)
qed

lemma second_pass_fold:
  assumes "n \<le> length nv"
  shows "fold (second_pass K csp ephs mean_TOT TOTs) [0..<n] nv =
           map (\<lambda>i. if i < n
                     then channel_result K (csp (ephs ! i) (TOTs ! i)) mean_TOT (TOTs ! i) (nv ! i)
                     else nv ! i) [0..<length nv]"
  using assms
proof (induction n)
  case 0
  show ?case by (simp add: map_nth)
next
  case (Suc n)
  let ?r = "map (\<lambda>i. if i < n
                     then channel_result K (csp (ephs ! i) (TOTs ! i)) mean_TOT (TOTs ! i) (nv ! i)
                     else nv ! i) [0..<length nv]"
  from Suc have IH: "fold (second_pass K csp ephs mean_TOT TOTs) [0..<n] nv = ?r"
    and n: "n < length nv"
    by simp_all
  have step: "second_pass K csp ephs mean_TOT TOTs n ?r =
      ?r[n := channel_result K (csp (ephs ! n) (TOTs ! n)) mean_TOT (TOTs ! n) (nv ! n)]"
    using n
    by (simp add: second_pass_def apply_sat_clock_def assign_range_def Let_def channel_result_def)
  have upd: "?r[n := channel_result K (csp (ephs ! n) (TOTs ! n)) mean_TOT (TOTs ! n) (nv ! n)] =
      map (\<lambda>i. if i < Suc n
                     then channel_result K (csp (ephs ! i) (TOTs ! i)) mean_TOT (TOTs ! i) (nv ! i)
                     else nv ! i) [0..<length nv]"
    by (rule nth_equalityI) (auto simp: nth_list_update less_Suc_eq)
  show ?case
    unfolding fold_upt_Suc IH step upd by simp
qed

lemma calc_navigation_measurement_ptrs_eq:
  assumes "unat n \<le> length meas" and "unat n \<le> length nv0" and "unat n \<le> length ephs"
  shows "calc_navigation_measurement_ptrs K csp n meas nv0 nav_time ephs =
           Some (map (\<lambda>i. if i < unat n
                     then channel_result K (csp (ephs ! i) (stated_TOT nav_time (meas ! i)))
                            ((\<Sum>j<unat n. stated_TOT nav_time (meas ! j)) / real (unat n))
                            (stated_TOT nav_time (meas ! i))
                            ((nv0 ! i)\<lparr>TOT := stated_TOT nav_time (meas ! i),
                                        pseudorange_rate := stated_rate K (meas ! i)\<rparr>)
                     else nv0 ! i) [0..<length nv0])"
  using assms
  by (simp add: calc_navigation_measurement_ptrs_def Let_def first_loop_eq second_pass_fold
        cong: map_cong)

lemma uncorrected_pseudoranges_eq:
  assumes "unat n \<le> length nv0"
  shows "uncorrected_pseudoranges K n meas nv0 nav_time =
           map (\<lambda>i. ((\<Sum>j<unat n. stated_TOT nav_time (meas ! j)) / real (unat n)
                      - stated_TOT nav_time (meas ! i)) * NAV_C K + NOMINAL_RANGE K) [0..<unat n]"
  using assms
  by (simp add: uncorrected_pseudoranges_def first_loop_eq assign_range_def)

text \<open>
  In the run of the second loop, whatever the earlier iterations did, line 182 stores
  for channel \<open>i\<close> the entry \<open>i\<close> of \<open>uncorrected_pseudoranges\<close>.
\<close>

lemma uncorrected_pseudoranges_in_run:
  assumes "i < unat n" and "unat n \<le> length nav_meas"
    and "first_loop K (unat n) meas nav_meas nav_time = (TOTs, mean_TOT, nav_meas1)"
  shows "pseudorange
           (assign_range K mean_TOT TOTs i
              (fold (second_pass K calc_sat_pos ephemerides mean_TOT TOTs) [0..<i] nav_meas1) ! i)
         = uncorrected_pseudoranges K n meas nav_meas nav_time ! i"
proof -
  have len: "length nav_meas1 = length nav_meas"
    using assms(2,3) by (auto simp: first_loop_eq)
  then have i: "i < length nav_meas1" using assms(1,2) by simp
  have "length (fold (second_pass K calc_sat_pos ephemerides mean_TOT TOTs) [0..<i] nav_meas1)
          = length nav_meas1"
    using i by (simp add: second_pass_fold)
  with i have run: "pseudorange
           (assign_range K mean_TOT TOTs i
              (fold (second_pass K calc_sat_pos ephemerides mean_TOT TOTs) [0..<i] nav_meas1) ! i)
         = (mean_TOT - TOTs ! i) * NAV_C K + NOMINAL_RANGE K"
    by (simp add: assign_range_def)
  have "uncorrected_pseudoranges K n meas nav_meas nav_time ! i
          = (mean_TOT - TOTs ! i) * NAV_C K + NOMINAL_RANGE K"
    using assms(1) i by (simp add: uncorrected_pseudoranges_def assms(3) assign_range_def)
  with run show ?thesis by simp
qed

lemma uncorrected_pseudorange_rates_eq:
  assumes "unat n \<le> length nv0"
  shows "uncorrected_pseudorange_rates K n meas nv0 nav_time =
           map (\<lambda>i. stated_rate K (meas ! i)) [0..<unat n]"
  using assms
  by (simp add: uncorrected_pseudorange_rates_def first_loop_eq)

text \<open>
  C1. For every array of \<open>n \<ge> 1\<close> channel measurements (the three arrays holding at least
  \<open>n\<close> entries), \<open>calc_navigation_measurement_\<close> returns, and for every channel \<open>i < n\<close>:
  \<open>TOT_i = time_of_week_ms / 1000 + code_phase_chips / 1.023e6
    + (nav_time - receiver_time) * code_phase_rate / 1.023e6\<close>;
  the uncorrected pseudorange is \<open>(meanTOT - TOT_i) * NAV_C + NOMINAL_RANGE\<close>, with
  \<open>meanTOT\<close> the arithmetic mean of the \<open>n\<close> times of transmission; the uncorrected
  pseudorange rate is \<open>NAV_C * (- carrier_freq / GPS_L1_HZ)\<close>; and with the clock terms
  that \<open>calc_sat_pos\<close> returns for \<open>TOT_i\<close>, the reported pseudorange is the uncorrected
  one plus \<open>clock_err * NAV_C\<close> and the reported rate is the uncorrected one minus
  \<open>clock_rate_err * NAV_C\<close>. The satellite position and velocity are those that
  \<open>calc_sat_pos\<close> returns.
\<close>

theorem calc_navigation_measurement_spec:
  fixes K :: nav_constants and calc_sat_pos :: "'e \<Rightarrow> real \<Rightarrow> sat_solution"
    and n_channels :: "8 word" and meas :: "channel_measurement_t list"
    and nav_meas :: "navigation_measurement_t list" and nav_time :: real
    and ephemerides :: "'e list"
  defines "tot \<equiv> \<lambda>i. real_of_int (time_of_week_ms (meas ! i)) / 1000
                       + code_phase_chips (meas ! i) / 1023000
                       + (nav_time - receiver_time (meas ! i)) * code_phase_rate (meas ! i) / 1023000"
  defines "mean \<equiv> (\<Sum>j<unat n_channels. tot j) / real (unat n_channels)"
  defines "sat \<equiv> \<lambda>i. calc_sat_pos (ephemerides ! i) (tot i)"
  assumes "1 \<le> unat n_channels"
    and "unat n_channels \<le> length meas"
    and "unat n_channels \<le> length nav_meas"
    and "unat n_channels \<le> length ephemerides"
  shows "\<exists>r. calc_navigation_measurement_ptrs K calc_sat_pos n_channels meas nav_meas nav_time
               ephemerides = Some r
             \<and> length r = length nav_meas
             \<and> (\<forall>i<unat n_channels.
                   TOT (r ! i) = tot i
                 \<and> uncorrected_pseudoranges K n_channels meas nav_meas nav_time ! i
                     = (mean - tot i) * NAV_C K + NOMINAL_RANGE K
                 \<and> uncorrected_pseudorange_rates K n_channels meas nav_meas nav_time ! i
                     = NAV_C K * (- carrier_freq (meas ! i) / GPS_L1_HZ K)
                 \<and> pseudorange (r ! i)
                     = uncorrected_pseudoranges K n_channels meas nav_meas nav_time ! i
                       + clock_err (sat i) * NAV_C K
                 \<and> pseudorange_rate (r ! i)
                     = uncorrected_pseudorange_rates K n_channels meas nav_meas nav_time ! i
                       - clock_rate_err (sat i) * NAV_C K
                 \<and> sat_pos (r ! i) = pos (sat i)
                 \<and> sat_vel (r ! i) = vel (sat i))"
proof -
  have tot: "tot i = stated_TOT nav_time (meas ! i)" for i
    by (simp add: tot_def stated_TOT_def)
  have mean: "mean = (\<Sum>j<unat n_channels. stated_TOT nav_time (meas ! j)) / real (unat n_channels)"
    by (simp add: mean_def tot)
  show ?thesis
    using assms(4-)
    by (simp add: calc_navigation_measurement_ptrs_eq uncorrected_pseudoranges_eq
          uncorrected_pseudorange_rates_eq channel_result_def stated_rate_def tot mean sat_def)
qed

theorem calc_navigation_measurement_spec_witness:
  "\<exists>r. calc_navigation_measurement_ptrs \<lparr>NAV_C = 2, GPS_L1_HZ = 4, NOMINAL_RANGE = 5\<rparr>
          (\<lambda>e t. \<lparr>pos = (t, 0, 0), vel = (0, 0, 0), clock_err = 3, clock_rate_err = 1\<rparr>) 1
          [\<lparr>code_phase_chips = 1023000, code_phase_rate = 0, carrier_freq = 8,
            time_of_week_ms = 1000, receiver_time = 0\<rparr>]
          [\<lparr>pseudorange = 0, pseudorange_rate = 0, TOT = 0, sat_pos = (0, 0, 0),
            sat_vel = (0, 0, 0)\<rparr>] 0 [()] = Some r
       \<and> TOT (r ! 0) = 2 \<and> pseudorange (r ! 0) = 11 \<and> pseudorange_rate (r ! 0) = - 6
       \<and> sat_pos (r ! 0) = (2, 0, 0)"
  using calc_navigation_measurement_spec
    [where K = "\<lparr>NAV_C = 2, GPS_L1_HZ = 4, NOMINAL_RANGE = 5\<rparr>"
       and calc_sat_pos = "\<lambda>e t. \<lparr>pos = (t, 0, 0), vel = (0, 0, 0), clock_err = 3, clock_rate_err = 1\<rparr>"
       and n_channels = 1
       and meas = "[\<lparr>code_phase_chips = 1023000, code_phase_rate = 0, carrier_freq = 8,
            time_of_week_ms = 1000, receiver_time = 0\<rparr>]"
       and nav_meas = "[\<lparr>pseudorange = 0, pseudorange_rate = 0, TOT = 0, sat_pos = (0, 0, 0),
            sat_vel = (0, 0, 0)\<rparr>]"
       and nav_time = 0 and ephemerides = "[()]"]
  by auto


text \<open>
  C8. For two channels (\<open>n = 2\<close>) whose times of transmission are equal, the two
  pseudoranges that line 182 assigns, before the satellite clock correction, are
  equal: both are \<open>NOMINAL_RANGE\<close>. Said of the values returned: each reported
  pseudorange less its clock correction \<open>clock_err * NAV_C\<close> is \<open>NOMINAL_RANGE\<close>.
\<close>

theorem equal_TOT_equal_pseudorange:
  fixes K :: nav_constants and calc_sat_pos :: "'e \<Rightarrow> real \<Rightarrow> sat_solution"
    and meas :: "channel_measurement_t list"
    and nav_meas :: "navigation_measurement_t list" and nav_time :: real
    and ephemerides :: "'e list"
  defines "tot \<equiv> \<lambda>i. real_of_int (time_of_week_ms (meas ! i)) / 1000
                       + code_phase_chips (meas ! i) / 1023000
                       + (nav_time - receiver_time (meas ! i)) * code_phase_rate (meas ! i) / 1023000"
  assumes "tot 0 = tot 1"
    and "2 \<le> length meas" and "2 \<le> length nav_meas" and "2 \<le> length ephemerides"
  shows "uncorrected_pseudoranges K 2 meas nav_meas nav_time = [NOMINAL_RANGE K, NOMINAL_RANGE K]
         \<and> (\<exists>r. calc_navigation_measurement_ptrs K calc_sat_pos 2 meas nav_meas nav_time
                   ephemerides = Some r
                 \<and> pseudorange (r ! 0)
                       - clock_err (calc_sat_pos (ephemerides ! 0) (tot 0)) * NAV_C K
                     = NOMINAL_RANGE K
                 \<and> pseudorange (r ! 1)
                       - clock_err (calc_sat_pos (ephemerides ! 1) (tot 1)) * NAV_C K
                     = NOMINAL_RANGE K)"
proof -
  have tot: "stated_TOT nav_time (meas ! i) = tot i" for i
    by (simp add: tot_def stated_TOT_def)
  have two: "unat (2 :: 8 word) = 2" by simp
  have upt: "[0..<2] = [0, Suc 0]" by (simp add: upt_rec)
  have sum: "(\<Sum>j<2. tot j) / 2 = tot 1"
    using assms(2) by (simp add: lessThan_Suc numeral_2_eq_2)
  have "uncorrected_pseudoranges K 2 meas nav_meas nav_time = [NOMINAL_RANGE K, NOMINAL_RANGE K]"
    using assms(2,4) by (simp add: uncorrected_pseudoranges_eq two tot sum upt)
  moreover have "\<exists>r. calc_navigation_measurement_ptrs K calc_sat_pos 2 meas nav_meas nav_time
                   ephemerides = Some r
                 \<and> pseudorange (r ! 0)
                       - clock_err (calc_sat_pos (ephemerides ! 0) (tot 0)) * NAV_C K
                     = NOMINAL_RANGE K
                 \<and> pseudorange (r ! 1)
                       - clock_err (calc_sat_pos (ephemerides ! 1) (tot 1)) * NAV_C K
                     = NOMINAL_RANGE K"
  proof -
    have ne: "nav_meas \<noteq> []" and one: "Suc 0 < length nav_meas"
      using assms(4) by auto
    let ?r = "map (\<lambda>i. if i < 2
                     then channel_result K (calc_sat_pos (ephemerides ! i) (tot i))
                            (tot 1) (tot i)
                            ((nav_meas ! i)\<lparr>TOT := tot i,
                                        pseudorange_rate := stated_rate K (meas ! i)\<rparr>)
                     else nav_meas ! i) [0..<length nav_meas]"
    have "calc_navigation_measurement_ptrs K calc_sat_pos 2 meas nav_meas nav_time ephemerides
            = Some ?r"
      using assms(3-) by (simp add: calc_navigation_measurement_ptrs_eq two tot sum cong: if_cong)
    moreover have "?r ! 0 = channel_result K (calc_sat_pos (ephemerides ! 0) (tot 0))
                            (tot 1) (tot 0)
                            ((nav_meas ! 0)\<lparr>TOT := tot 0,
                                        pseudorange_rate := stated_rate K (meas ! 0)\<rparr>)"
      using ne one by (simp add: nth_map_upt)
    moreover have "?r ! 1 = channel_result K (calc_sat_pos (ephemerides ! 1) (tot 1))
                            (tot 1) (tot 1)
                            ((nav_meas ! 1)\<lparr>TOT := tot 1,
                                        pseudorange_rate := stated_rate K (meas ! 1)\<rparr>)"
      using ne one by (simp add: nth_map_upt)
    ultimately show ?thesis
      using assms(2) by (simp add: channel_result_def)
  qed
  ultimately show ?thesis by simp
qed

theorem equal_TOT_equal_pseudorange_witness:
  "uncorrected_pseudoranges \<lparr>NAV_C = 2, GPS_L1_HZ = 4, NOMINAL_RANGE = 5\<rparr> 2
     [\<lparr>code_phase_chips = 1023000, code_phase_rate = 0, carrier_freq = 8,
       time_of_week_ms = 0, receiver_time = 0\<rparr>,
      \<lparr>code_phase_chips = 0, code_phase_rate = 1023000, carrier_freq = 0,
       time_of_week_ms = 3000, receiver_time = 2\<rparr>]
     [\<lparr>pseudorange = 0, pseudorange_rate = 0, TOT = 0, sat_pos = (0, 0, 0), sat_vel = (0, 0, 0)\<rparr>,
      \<lparr>pseudorange = 1, pseudorange_rate = 1, TOT = 1, sat_pos = (0, 0, 0), sat_vel = (0, 0, 0)\<rparr>] 0
   = [5, 5]"
  using equal_TOT_equal_pseudorange
    [where K = "\<lparr>NAV_C = 2, GPS_L1_HZ = 4, NOMINAL_RANGE = 5\<rparr>"
       and calc_sat_pos = "\<lambda>e t. \<lparr>pos = (t, 0, 0), vel = (0, 0, 0), clock_err = 3, clock_rate_err = 1\<rparr>"
       and meas = "[\<lparr>code_phase_chips = 1023000, code_phase_rate = 0, carrier_freq = 8,
       time_of_week_ms = 0, receiver_time = 0\<rparr>,
      \<lparr>code_phase_chips = 0, code_phase_rate = 1023000, carrier_freq = 0,
       time_of_week_ms = 3000, receiver_time = 2\<rparr>]"
       and nav_meas = "[\<lparr>pseudorange = 0, pseudorange_rate = 0, TOT = 0, sat_pos = (0, 0, 0), sat_vel = (0, 0, 0)\<rparr>,
      \<lparr>pseudorange = 1, pseudorange_rate = 1, TOT = 1, sat_pos = (0, 0, 0), sat_vel = (0, 0, 0)\<rparr>]"
       and nav_time = 0 and ephemerides = "[(), ()]"]
  by simp




subsection \<open>Correlation\<close>

lemma trunc_of_int: "trunc (real_of_int j) = j"
  by (simp add: trunc_def)

lemma double_to_int_of_int:
  "- (2 ^ 31) \<le> j \<Longrightarrow> j \<le> 2 ^ 31 - 1 \<Longrightarrow> double_to_int (real_of_int j) = Inr j"
  by (simp add: double_to_int_def trunc_of_int)

lemma code_at_eval:
  assumes "\<lceil>x\<rceil> = j" and "- (2 ^ 31) \<le> j" and "j \<le> 2 ^ 31 - 1"
  shows "code_at t code x =
           (if 0 \<le> j \<and> j < int (length code) then Inr (real_of_int (sint (code ! nat j)))
            else Inl (CodeIndexOutOfBounds t j))"
  using assms by (simp add: code_at_def double_to_int_of_int)

lemma code_at_in_range:
  assumes "- 1 < x" and "x \<le> 1024" and "1025 \<le> length code"
  shows "code_at t code x = Inr (real_of_int (sint (code ! nat \<lceil>x\<rceil>)))"
proof -
  have lo: "0 \<le> \<lceil>x\<rceil>" using assms(1) by (simp add: le_ceiling_iff)
  have hi: "\<lceil>x\<rceil> \<le> 1024" using assms(2) by (simp add: ceiling_le_iff)
  have len: "\<lceil>x\<rceil> < int (length code)" using hi assms(3) by linarith
  from lo hi len show ?thesis
    by (subst code_at_eval [where j = "\<lceil>x\<rceil>"]) simp_all
qed










text \<open>
  Outside these conditions the call is undefined: an empty sample buffer is read out
  of bounds, and with the code step \<open>2\<^sup>-\<^sup>3\<^sup>2\<close> the count \<open>1023 * 2\<^sup>3\<^sup>2\<close> does not fit an
  \<open>int\<close>.
\<close>

lemma track_correlate_short_buffer:
  "track_correlate [] (replicate 1025 0) 1022 1 0 0 = Inl (SampleIndexOutOfBounds 0)"
  by (simp add: track_correlate_def Let_def double_to_int_def trunc_def
      track_loop.simps [of _ _ _ _ _ _ _ 0] correlate_sample_def code_at_in_range sample_at_def)

lemma track_correlate_count_overflow:
  "track_correlate samples code 0 (1 / 2 ^ 32) 0 0 = Inl ConversionOutOfRange"
  by (simp add: track_correlate_def Let_def double_to_int_def trunc_def)







text \<open>
  C9. There is a valid input of \<open>track_correlate\<close> (initial code phase in \<open>[0, 1023)\<close>,
  positive code step) for which a chip index is outside the index range \<open>[0, 1022]\<close> of
  a code replica of 1023 chips, the sample buffer holding the samples of the epoch:
  at code phase 1022 the late index \<open>ceil(code_phase + 0.5)\<close> is 1023, one past the
  code length, and the read of line 228 is out of bounds.
\<close>

theorem code_replica_read_out_of_bounds:
  "\<exists>samples code p s carr_phase0 carr_step.
      length code = 1023 \<and> 0 \<le> p \<and> p < 1023 \<and> 0 < s
    \<and> length samples = nat \<lceil>(1023 - p) / s\<rceil>
    \<and> \<lceil>p + 1 / 2\<rceil> = 1023
    \<and> track_correlate samples code p s carr_phase0 carr_step
        = Inl (CodeIndexOutOfBounds Late 1023)"
proof -
  have E: "code_at Early (replicate 1023 0) (2043 / 2) = Inr 0"
    by (subst code_at_eval [where j = 1022]) (simp_all add: ceiling_eq_iff)
  have P: "code_at Prompt (replicate 1023 0) 1022 = Inr 0"
    by (subst code_at_eval [where j = 1022]) simp_all
  have L: "code_at Late (replicate 1023 0) (2045 / 2) = Inl (CodeIndexOutOfBounds Late 1023)"
    by (subst code_at_eval [where j = 1023]) (simp_all add: ceiling_eq_iff)
  have "track_correlate [0] (replicate 1023 0) 1022 1 0 0 = Inl (CodeIndexOutOfBounds Late 1023)"
    by (simp add: track_correlate_def Let_def double_to_int_def trunc_def track_loop.simps [of _ _ _ _ _ _ _ 0]
        correlate_sample_def E P L)
  then show ?thesis
    by (intro exI [where x = "[0]"] exI [where x = "replicate 1023 0"] exI [where x = 1022]
        exI [where x = 1] exI [where x = 0]) (simp add: ceiling_eq_iff)
qed

end
